theory Spec2Isabelle
  imports Main "HOL-Library.Word"
begin

section \<open>The MicroBitFileSystem compatibility facade\<close>

text \<open>
  \<^verbatim>\<open>source/MicroBitFileSystem.cpp\<close> and \<^verbatim>\<open>inc/MicroBitFileSystem.h\<close> define a class with
  one static data member, no non-static data member, a constructor and eight member
  functions. Every body is one call on the object that \<^verbatim>\<open>CodalFS::defaultFileSystem\<close>
  points to. \<^verbatim>\<open>CodalFS.h\<close> is not part of the sources, so the behaviour of that object is
  a parameter of the model.
\<close>

subsection \<open>Machine types\<close>

text \<open>
  \<^verbatim>\<open>int\<close> is a 32-bit two's complement value on the target (read it with \<open>sint\<close>),
  \<^verbatim>\<open>uint32_t\<close> and \<^verbatim>\<open>uint8_t\<close> are unsigned words, and \<^verbatim>\<open>char const *\<close> and
  \<^verbatim>\<open>uint8_t *\<close> are 32-bit addresses. The facade never dereferences a pointer.
\<close>

type_synonym cint = "32 word"
type_synonym uint32_t = "32 word"
type_synonym uint8_t = "8 word"
type_synonym ptr = "32 word"

subsection \<open>The external engine\<close>

text \<open>
  One constructor for each member function of \<^verbatim>\<open>CodalFS\<close> that the facade calls, carrying
  the actual arguments of the call in the order of the call.
\<close>

datatype codal_call =
    CodalFS_init
  | CodalFS_createDirectory ptr
  | CodalFS_open ptr uint32_t
  | CodalFS_flush cint
  | CodalFS_close cint
  | CodalFS_seek cint cint uint8_t
  | CodalFS_read cint ptr cint
  | CodalFS_write cint ptr cint
  | CodalFS_remove ptr

text \<open>
  Everything outside the facade is a value of type \<open>'w\<close>: the pointer
  \<^verbatim>\<open>CodalFS::defaultFileSystem\<close>, the object behind it, the flash and the RAM that holds
  file names and buffers. \<open>engine\<close> is what a call through
  \<^verbatim>\<open>CodalFS::defaultFileSystem\<close> returns and how it changes that world (every call is
  taken to return; the declared parameter and result types of \<^verbatim>\<open>CodalFS\<close> are taken to be
  those of the facade, so that no implicit conversion happens at the call).
  \<open>operator_new\<close> is the allocation behind \<^verbatim>\<open>new MicroBitFileSystem(0, 0)\<close>.
\<close>

record 'w external =
  engine :: "codal_call \<Rightarrow> 'w \<Rightarrow> cint \<times> 'w"
  operator_new :: "nat \<Rightarrow> 'w \<Rightarrow> ptr \<times> 'w"

subsection \<open>The state\<close>

text \<open>
  The class declares no non-static data member (\<^verbatim>\<open>inc/MicroBitFileSystem.h\<close>, lines
  29 to 203), so the contents of an instance have one possible value.
\<close>

datatype MicroBitFileSystem = No_data_members

text \<open>
  \<open>defaultFileSystem\<close> is \<^verbatim>\<open>static MicroBitFileSystem *defaultFileSystem\<close>, the only data
  member the class declares. \<open>instances\<close> is the memory of the facade's objects: the
  contents of the instance at each address. \<open>calls\<close> records, oldest first, the calls
  made through \<^verbatim>\<open>CodalFS::defaultFileSystem\<close>.
\<close>

record 'w system =
  defaultFileSystem :: ptr
  instances :: "ptr \<Rightarrow> MicroBitFileSystem"
  world :: 'w
  calls :: "codal_call list"

text \<open>A call \<^verbatim>\<open>CodalFS::defaultFileSystem->f(...)\<close>.\<close>

definition CodalFS_defaultFileSystem ::
  "'w external \<Rightarrow> codal_call \<Rightarrow> 'w system \<Rightarrow> cint \<times> 'w system" where
  "CodalFS_defaultFileSystem E c s =
     (fst (engine E c (world s)),
      s\<lparr>world := snd (engine E c (world s)), calls := calls s @ [c]\<rparr>)"

subsection \<open>The constructor and the eight member functions\<close>

text \<open>
  \<^verbatim>\<open>MicroBitFileSystem::MicroBitFileSystem(uint32_t flashStart, int flashPages)\<close>:
  the body is the statement \<^verbatim>\<open>CodalFS::defaultFileSystem->init();\<close>, whose value, if any,
  is dropped.
\<close>

definition MicroBitFileSystem_MicroBitFileSystem ::
  "'w external \<Rightarrow> ptr \<Rightarrow> uint32_t \<Rightarrow> cint \<Rightarrow> 'w system \<Rightarrow> unit \<times> 'w system" where
  "MicroBitFileSystem_MicroBitFileSystem E this flashStart flashPages s =
     ((), snd (CodalFS_defaultFileSystem E CodalFS_init s))"

definition MicroBitFileSystem_createDirectory ::
  "'w external \<Rightarrow> ptr \<Rightarrow> ptr \<Rightarrow> 'w system \<Rightarrow> cint \<times> 'w system" where
  "MicroBitFileSystem_createDirectory E this name s =
     CodalFS_defaultFileSystem E (CodalFS_createDirectory name) s"

definition MicroBitFileSystem_open ::
  "'w external \<Rightarrow> ptr \<Rightarrow> ptr \<Rightarrow> uint32_t \<Rightarrow> 'w system \<Rightarrow> cint \<times> 'w system" where
  "MicroBitFileSystem_open E this filename flags s =
     CodalFS_defaultFileSystem E (CodalFS_open filename flags) s"

definition MicroBitFileSystem_flush ::
  "'w external \<Rightarrow> ptr \<Rightarrow> cint \<Rightarrow> 'w system \<Rightarrow> cint \<times> 'w system" where
  "MicroBitFileSystem_flush E this fd s =
     CodalFS_defaultFileSystem E (CodalFS_flush fd) s"

definition MicroBitFileSystem_close ::
  "'w external \<Rightarrow> ptr \<Rightarrow> cint \<Rightarrow> 'w system \<Rightarrow> cint \<times> 'w system" where
  "MicroBitFileSystem_close E this fd s =
     CodalFS_defaultFileSystem E (CodalFS_close fd) s"

definition MicroBitFileSystem_seek ::
  "'w external \<Rightarrow> ptr \<Rightarrow> cint \<Rightarrow> cint \<Rightarrow> uint8_t \<Rightarrow> 'w system \<Rightarrow> cint \<times> 'w system" where
  "MicroBitFileSystem_seek E this fd offset flags s =
     CodalFS_defaultFileSystem E (CodalFS_seek fd offset flags) s"

definition MicroBitFileSystem_read ::
  "'w external \<Rightarrow> ptr \<Rightarrow> cint \<Rightarrow> ptr \<Rightarrow> cint \<Rightarrow> 'w system \<Rightarrow> cint \<times> 'w system" where
  "MicroBitFileSystem_read E this fd buffer size' s =
     CodalFS_defaultFileSystem E (CodalFS_read fd buffer size') s"

definition MicroBitFileSystem_write ::
  "'w external \<Rightarrow> ptr \<Rightarrow> cint \<Rightarrow> ptr \<Rightarrow> cint \<Rightarrow> 'w system \<Rightarrow> cint \<times> 'w system" where
  "MicroBitFileSystem_write E this fd buffer size' s =
     CodalFS_defaultFileSystem E (CodalFS_write fd buffer size') s"

definition MicroBitFileSystem_remove ::
  "'w external \<Rightarrow> ptr \<Rightarrow> ptr \<Rightarrow> 'w system \<Rightarrow> cint \<times> 'w system" where
  "MicroBitFileSystem_remove E this filename s =
     CodalFS_defaultFileSystem E (CodalFS_remove filename) s"

subsection \<open>Load time\<close>

text \<open>
  \<^verbatim>\<open>MicroBitFileSystem* MicroBitFileSystem::defaultFileSystem = new MicroBitFileSystem(0, 0);\<close>
  allocates the object, runs the constructor on it with both arguments 0 and stores the
  address in the static pointer. A class with no data member has size 1.
\<close>

definition sizeof_MicroBitFileSystem :: nat where
  "sizeof_MicroBitFileSystem = 1"

definition static_initialisation :: "'w external \<Rightarrow> 'w system \<Rightarrow> 'w system" where
  "static_initialisation E s =
     (snd (MicroBitFileSystem_MicroBitFileSystem E
             (fst (operator_new E sizeof_MicroBitFileSystem (world s))) 0 0
             (s\<lparr>world := snd (operator_new E sizeof_MicroBitFileSystem (world s))\<rparr>)))
       \<lparr>defaultFileSystem := fst (operator_new E sizeof_MicroBitFileSystem (world s))\<rparr>"

subsection \<open>Calls on the facade as data\<close>

text \<open>
  A call of one of the eight member functions with its actual arguments, and a use of
  the facade: the construction of an instance at an address, or a member call on a
  receiver.
\<close>

datatype member_call =
    Call_createDirectory ptr
  | Call_open ptr uint32_t
  | Call_flush cint
  | Call_close cint
  | Call_seek cint cint uint8_t
  | Call_read cint ptr cint
  | Call_write cint ptr cint
  | Call_remove ptr

fun call_method :: "'w external \<Rightarrow> ptr \<Rightarrow> member_call \<Rightarrow> 'w system \<Rightarrow> cint \<times> 'w system" where
  "call_method E this (Call_createDirectory name) s = MicroBitFileSystem_createDirectory E this name s"
| "call_method E this (Call_open filename flags) s = MicroBitFileSystem_open E this filename flags s"
| "call_method E this (Call_flush fd) s = MicroBitFileSystem_flush E this fd s"
| "call_method E this (Call_close fd) s = MicroBitFileSystem_close E this fd s"
| "call_method E this (Call_seek fd offset flags) s = MicroBitFileSystem_seek E this fd offset flags s"
| "call_method E this (Call_read fd buffer size') s = MicroBitFileSystem_read E this fd buffer size' s"
| "call_method E this (Call_write fd buffer size') s = MicroBitFileSystem_write E this fd buffer size' s"
| "call_method E this (Call_remove filename) s = MicroBitFileSystem_remove E this filename s"

datatype facade_op =
    Construct ptr uint32_t cint
  | Member ptr member_call

text \<open>The constructor returns nothing, a member function returns an \<^verbatim>\<open>int\<close>.\<close>

fun perform :: "'w external \<Rightarrow> facade_op \<Rightarrow> 'w system \<Rightarrow> cint option \<times> 'w system" where
  "perform E (Construct this flashStart flashPages) s =
     (None, snd (MicroBitFileSystem_MicroBitFileSystem E this flashStart flashPages s))"
| "perform E (Member this m) s =
     (Some (fst (call_method E this m s)), snd (call_method E this m s))"

fun run :: "'w external \<Rightarrow> facade_op list \<Rightarrow> 'w system \<Rightarrow> 'w system" where
  "run E [] s = s"
| "run E (x # xs) s = run E xs (snd (perform E x s))"

subsection \<open>Reading calls\<close>

text \<open>The calls made on the engine between two states.\<close>

definition new_calls :: "'w system \<Rightarrow> 'w system \<Rightarrow> codal_call list" where
  "new_calls s s' = drop (length (calls s)) (calls s')"

text \<open>An actual argument, and the name and the argument list of a call.\<close>

datatype arg = U32 uint32_t | I32 cint | U8 uint8_t | Ptr ptr

fun call_name :: "codal_call \<Rightarrow> string" where
  "call_name CodalFS_init = ''init''"
| "call_name (CodalFS_createDirectory name) = ''createDirectory''"
| "call_name (CodalFS_open filename flags) = ''open''"
| "call_name (CodalFS_flush fd) = ''flush''"
| "call_name (CodalFS_close fd) = ''close''"
| "call_name (CodalFS_seek fd offset flags) = ''seek''"
| "call_name (CodalFS_read fd buffer size') = ''read''"
| "call_name (CodalFS_write fd buffer size') = ''write''"
| "call_name (CodalFS_remove filename) = ''remove''"

fun call_args :: "codal_call \<Rightarrow> arg list" where
  "call_args CodalFS_init = []"
| "call_args (CodalFS_createDirectory name) = [Ptr name]"
| "call_args (CodalFS_open filename flags) = [Ptr filename, U32 flags]"
| "call_args (CodalFS_flush fd) = [I32 fd]"
| "call_args (CodalFS_close fd) = [I32 fd]"
| "call_args (CodalFS_seek fd offset flags) = [I32 fd, I32 offset, U8 flags]"
| "call_args (CodalFS_read fd buffer size') = [I32 fd, Ptr buffer, I32 size']"
| "call_args (CodalFS_write fd buffer size') = [I32 fd, Ptr buffer, I32 size']"
| "call_args (CodalFS_remove filename) = [Ptr filename]"

fun method_name :: "member_call \<Rightarrow> string" where
  "method_name (Call_createDirectory name) = ''createDirectory''"
| "method_name (Call_open filename flags) = ''open''"
| "method_name (Call_flush fd) = ''flush''"
| "method_name (Call_close fd) = ''close''"
| "method_name (Call_seek fd offset flags) = ''seek''"
| "method_name (Call_read fd buffer size') = ''read''"
| "method_name (Call_write fd buffer size') = ''write''"
| "method_name (Call_remove filename) = ''remove''"

fun method_args :: "member_call \<Rightarrow> arg list" where
  "method_args (Call_createDirectory name) = [Ptr name]"
| "method_args (Call_open filename flags) = [Ptr filename, U32 flags]"
| "method_args (Call_flush fd) = [I32 fd]"
| "method_args (Call_close fd) = [I32 fd]"
| "method_args (Call_seek fd offset flags) = [I32 fd, I32 offset, U8 flags]"
| "method_args (Call_read fd buffer size') = [I32 fd, Ptr buffer, I32 size']"
| "method_args (Call_write fd buffer size') = [I32 fd, Ptr buffer, I32 size']"
| "method_args (Call_remove filename) = [Ptr filename]"

text \<open>The arguments a use of the facade is given: the constructor's are its two parameters.\<close>

fun op_args :: "facade_op \<Rightarrow> arg list" where
  "op_args (Construct this flashStart flashPages) = [U32 flashStart, I32 flashPages]"
| "op_args (Member this m) = method_args m"

subsection \<open>A stand-in engine for concrete runs\<close>

text \<open>
  Used only to evaluate the facade at concrete inputs: the world is the number of calls
  the engine has served, \<^verbatim>\<open>init\<close> answers 0, a call with a null name or a negative
  descriptor answers -1001, any other call answers the number of earlier calls.
  Allocation hands out the address 0x20002000 and leaves the world alone.
\<close>

fun stub_answer :: "codal_call \<Rightarrow> nat \<Rightarrow> cint" where
  "stub_answer CodalFS_init n = 0"
| "stub_answer (CodalFS_createDirectory name) n = (if name = 0 then - 1001 else of_nat n)"
| "stub_answer (CodalFS_open filename flags) n = (if filename = 0 then - 1001 else of_nat n)"
| "stub_answer (CodalFS_flush fd) n = (if sint fd < 0 then - 1001 else of_nat n)"
| "stub_answer (CodalFS_close fd) n = (if sint fd < 0 then - 1001 else of_nat n)"
| "stub_answer (CodalFS_seek fd offset flags) n = (if sint fd < 0 then - 1001 else of_nat n)"
| "stub_answer (CodalFS_read fd buffer size') n = (if sint fd < 0 then - 1001 else of_nat n)"
| "stub_answer (CodalFS_write fd buffer size') n = (if sint fd < 0 then - 1001 else of_nat n)"
| "stub_answer (CodalFS_remove filename) n = (if filename = 0 then - 1001 else of_nat n)"

definition stub :: "nat external" where
  "stub = \<lparr>engine = (\<lambda>c n. (stub_answer c n, Suc n)),
           operator_new = (\<lambda>sz n. (0x20002000, n))\<rparr>"

definition boot :: "nat system" where
  "boot = \<lparr>defaultFileSystem = 0, instances = (\<lambda>a. No_data_members), world = 0, calls = []\<rparr>"

section \<open>Properties\<close>

subsection \<open>Helper facts\<close>

lemma new_calls_append: "new_calls s (s'\<lparr>calls := calls s @ cs\<rparr>) = cs"
  by (simp add: new_calls_def)

lemma CodalFS_defaultFileSystem_result:
  "fst (CodalFS_defaultFileSystem E c s) = fst (engine E c (world s))"
  by (simp add: CodalFS_defaultFileSystem_def)

lemma CodalFS_defaultFileSystem_state:
  "snd (CodalFS_defaultFileSystem E c s) =
     s\<lparr>world := snd (engine E c (world s)), calls := calls s @ [c]\<rparr>"
  by (simp add: CodalFS_defaultFileSystem_def)


lemmas facade_defs =
  MicroBitFileSystem_MicroBitFileSystem_def
  MicroBitFileSystem_createDirectory_def MicroBitFileSystem_open_def
  MicroBitFileSystem_flush_def MicroBitFileSystem_close_def
  MicroBitFileSystem_seek_def MicroBitFileSystem_read_def
  MicroBitFileSystem_write_def MicroBitFileSystem_remove_def

text \<open>
  Every member function is one call through \<^verbatim>\<open>CodalFS::defaultFileSystem\<close>, of the
  same name and with the same arguments; the constructor and the load-time
  initialisation change the state in one known way; no use of the facade writes the
  static pointer.
\<close>

lemma call_method_delegates:
  "\<exists>c. call_method E this m s = CodalFS_defaultFileSystem E c s
       \<and> call_name c = method_name m \<and> call_args c = method_args m"
  by (cases m; simp add: facade_defs; rule exI, rule conjI, rule refl, simp)

lemma constructor_state:
  "snd (MicroBitFileSystem_MicroBitFileSystem E this flashStart flashPages s) =
     s\<lparr>world := snd (engine E CodalFS_init (world s)), calls := calls s @ [CodalFS_init]\<rparr>"
  by (simp add: MicroBitFileSystem_MicroBitFileSystem_def CodalFS_defaultFileSystem_state)

lemma static_initialisation_state:
  "static_initialisation E s =
     s\<lparr>defaultFileSystem := fst (operator_new E sizeof_MicroBitFileSystem (world s)),
       world := snd (engine E CodalFS_init (snd (operator_new E sizeof_MicroBitFileSystem (world s)))),
       calls := calls s @ [CodalFS_init]\<rparr>"
  by (simp add: static_initialisation_def constructor_state)

lemma perform_state:
  "\<exists>c. snd (perform E x s) =
     s\<lparr>world := snd (engine E c (world s)), calls := calls s @ [c]\<rparr>"
proof (cases x)
  case (Construct this flashStart flashPages)
  then show ?thesis by (auto simp: constructor_state)
next
  case (Member this m)
  obtain c where "call_method E this m s = CodalFS_defaultFileSystem E c s"
    using call_method_delegates by blast
  with Member show ?thesis by (auto simp: CodalFS_defaultFileSystem_state)
qed

lemma perform_defaultFileSystem:
  "defaultFileSystem (snd (perform E x s)) = defaultFileSystem s"
proof -
  obtain c where "snd (perform E x s) =
     s\<lparr>world := snd (engine E c (world s)), calls := calls s @ [c]\<rparr>"
    using perform_state by blast
  then show ?thesis by simp
qed

lemma run_defaultFileSystem:
  "defaultFileSystem (run E ops s) = defaultFileSystem s"
  by (induction ops arbitrary: s) (simp_all add: perform_defaultFileSystem)

subsection \<open>Pass-through of the eight member functions\<close>

text \<open>
  Claim C1. For each of \<^verbatim>\<open>open\<close>, \<^verbatim>\<open>flush\<close>, \<^verbatim>\<open>close\<close>, \<^verbatim>\<open>seek\<close>, \<^verbatim>\<open>read\<close>,
  \<^verbatim>\<open>write\<close>, \<^verbatim>\<open>remove\<close> and \<^verbatim>\<open>createDirectory\<close>, for every receiver, every argument
  value, every engine and every state: the value returned is the value the engine
  returns for the same arguments in the same world, whatever status or error code that
  is, and the state afterwards is the state before with the world replaced by the one the
  engine leaves and that one call added to the record of calls. Nothing else changes.
\<close>

theorem passthrough_identity:
  "MicroBitFileSystem_open E this filename flags s =
     (fst (engine E (CodalFS_open filename flags) (world s)),
      s\<lparr>world := snd (engine E (CodalFS_open filename flags) (world s)),
        calls := calls s @ [CodalFS_open filename flags]\<rparr>)
   \<and> MicroBitFileSystem_flush E this fd s =
     (fst (engine E (CodalFS_flush fd) (world s)),
      s\<lparr>world := snd (engine E (CodalFS_flush fd) (world s)),
        calls := calls s @ [CodalFS_flush fd]\<rparr>)
   \<and> MicroBitFileSystem_close E this fd s =
     (fst (engine E (CodalFS_close fd) (world s)),
      s\<lparr>world := snd (engine E (CodalFS_close fd) (world s)),
        calls := calls s @ [CodalFS_close fd]\<rparr>)
   \<and> MicroBitFileSystem_seek E this fd offset whence s =
     (fst (engine E (CodalFS_seek fd offset whence) (world s)),
      s\<lparr>world := snd (engine E (CodalFS_seek fd offset whence) (world s)),
        calls := calls s @ [CodalFS_seek fd offset whence]\<rparr>)
   \<and> MicroBitFileSystem_read E this fd buffer len s =
     (fst (engine E (CodalFS_read fd buffer len) (world s)),
      s\<lparr>world := snd (engine E (CodalFS_read fd buffer len) (world s)),
        calls := calls s @ [CodalFS_read fd buffer len]\<rparr>)
   \<and> MicroBitFileSystem_write E this fd buffer len s =
     (fst (engine E (CodalFS_write fd buffer len) (world s)),
      s\<lparr>world := snd (engine E (CodalFS_write fd buffer len) (world s)),
        calls := calls s @ [CodalFS_write fd buffer len]\<rparr>)
   \<and> MicroBitFileSystem_remove E this filename s =
     (fst (engine E (CodalFS_remove filename) (world s)),
      s\<lparr>world := snd (engine E (CodalFS_remove filename) (world s)),
        calls := calls s @ [CodalFS_remove filename]\<rparr>)
   \<and> MicroBitFileSystem_createDirectory E this name s =
     (fst (engine E (CodalFS_createDirectory name) (world s)),
      s\<lparr>world := snd (engine E (CodalFS_createDirectory name) (world s)),
        calls := calls s @ [CodalFS_createDirectory name]\<rparr>)"
  unfolding facade_defs CodalFS_defaultFileSystem_def by simp


subsection \<open>The nine operations, the constructor among them\<close>

text \<open>
  Claim C2, as stated, asks every one of the nine operations to invoke the corresponding
  engine operation with its own arguments: the arguments of the one engine call made
  would be the arguments the operation was given. The constructor is given
  \<open>flashStart\<close> and \<open>flashPages\<close> and calls \<^verbatim>\<open>init()\<close> with no argument, so the
  statement fails there: constructing an instance with \<open>flashStart = 5\<close> and
  \<open>flashPages = 7\<close> makes a call whose argument list is empty.
\<close>

theorem constructor_arguments_not_forwarded:
  "map call_args (new_calls boot (snd (perform stub (Construct 0x20002000 5 7) boot)))
     \<noteq> [op_args (Construct 0x20002000 5 7)]"
  by (simp add: constructor_state new_calls_append)

text \<open>
  Claim C2, amended. Each of the eight member functions does nothing except invoke the
  engine operation of the same name with its own arguments, and returns its result. The
  constructor does nothing except invoke \<^verbatim>\<open>init\<close> on the engine, with no argument: its
  own two arguments are not passed on, and it returns nothing.
\<close>

theorem facade_delegation:
  "(\<exists>c. call_name c = method_name m \<and> call_args c = method_args m
        \<and> perform E (Member this m) s =
            (Some (fst (engine E c (world s))),
             s\<lparr>world := snd (engine E c (world s)), calls := calls s @ [c]\<rparr>))
   \<and> perform E (Construct this flashStart flashPages) s =
       (None, s\<lparr>world := snd (engine E CodalFS_init (world s)),
                calls := calls s @ [CodalFS_init]\<rparr>)
   \<and> map call_name (new_calls s (snd (perform E (Construct this flashStart flashPages) s)))
       = [''init'']
   \<and> map call_args (new_calls s (snd (perform E (Construct this flashStart flashPages) s)))
       = [[]]"
proof -
  obtain c where c: "call_method E this m s = CodalFS_defaultFileSystem E c s"
    "call_name c = method_name m" "call_args c = method_args m"
    using call_method_delegates by blast
  have "perform E (Member this m) s =
            (Some (fst (engine E c (world s))),
             s\<lparr>world := snd (engine E c (world s)), calls := calls s @ [c]\<rparr>)"
    by (simp add: c CodalFS_defaultFileSystem_result CodalFS_defaultFileSystem_state)
  with c have first: "\<exists>c. call_name c = method_name m \<and> call_args c = method_args m
        \<and> perform E (Member this m) s =
            (Some (fst (engine E c (world s))),
             s\<lparr>world := snd (engine E c (world s)), calls := calls s @ [c]\<rparr>)"
    by blast
  show ?thesis
    using first by (simp add: constructor_state new_calls_append)
qed

subsection \<open>Construction\<close>

text \<open>
  Claim C4. Constructing an instance, with any arguments and at any address, makes
  exactly one engine call, \<^verbatim>\<open>init\<close>, and leaves the world as \<^verbatim>\<open>init\<close> leaves it. The
  load-time initialisation of the default instance makes exactly that one call too, and
  the world it leaves is the one \<^verbatim>\<open>init\<close> leaves when run on the world after the
  allocation. A further construction after load time makes a second \<^verbatim>\<open>init\<close> call, on
  the world the first one left: the shared engine is initialised again, so the world is
  then the result of \<^verbatim>\<open>init\<close> applied twice.
\<close>

theorem construction_initialises_engine:
  "new_calls s (snd (MicroBitFileSystem_MicroBitFileSystem E this flashStart flashPages s))
     = [CodalFS_init]
   \<and> world (snd (MicroBitFileSystem_MicroBitFileSystem E this flashStart flashPages s))
     = snd (engine E CodalFS_init (world s))
   \<and> new_calls s (static_initialisation E s) = [CodalFS_init]
   \<and> world (static_initialisation E s)
     = snd (engine E CodalFS_init
              (snd (operator_new E sizeof_MicroBitFileSystem (world s))))
   \<and> new_calls s (snd (MicroBitFileSystem_MicroBitFileSystem E this flashStart flashPages
                          (static_initialisation E s)))
     = [CodalFS_init, CodalFS_init]
   \<and> world (snd (MicroBitFileSystem_MicroBitFileSystem E this flashStart flashPages
                     (static_initialisation E s)))
     = snd (engine E CodalFS_init (world (static_initialisation E s)))
   \<and> world (snd (MicroBitFileSystem_MicroBitFileSystem E this flashStart flashPages
                     (static_initialisation E s)))
     = snd (engine E CodalFS_init
              (snd (engine E CodalFS_init
                      (snd (operator_new E sizeof_MicroBitFileSystem (world s))))))"
  by (simp add: constructor_state static_initialisation_state new_calls_def)

text \<open>
  Claim C8. The constructor's result and the state it leaves are the same for every pair
  of values of \<open>flashStart\<close> and \<open>flashPages\<close>, the defaults 0 and 0 included: one
  \<^verbatim>\<open>init\<close> call on the engine and nothing else. Whatever is done with the facade
  afterwards ends in the same state too.
\<close>

theorem constructor_ignores_parameters:
  "MicroBitFileSystem_MicroBitFileSystem E this flashStart flashPages s
     = MicroBitFileSystem_MicroBitFileSystem E this 0 0 s
   \<and> MicroBitFileSystem_MicroBitFileSystem E this flashStart flashPages s
     = MicroBitFileSystem_MicroBitFileSystem E this flashStart' flashPages' s
   \<and> MicroBitFileSystem_MicroBitFileSystem E this flashStart flashPages s
     = ((), s\<lparr>world := snd (engine E CodalFS_init (world s)),
              calls := calls s @ [CodalFS_init]\<rparr>)
   \<and> run E (Construct this flashStart flashPages # ops) s
     = run E (Construct this flashStart' flashPages' # ops) s"
  by (simp add: MicroBitFileSystem_MicroBitFileSystem_def CodalFS_defaultFileSystem_def)

subsection \<open>The facade's own state\<close>

text \<open>
  Claim C5. The load-time initialisation stores the address of the new instance in the
  static pointer, and after any sequence of constructions and member calls the pointer
  still holds that address.
\<close>

theorem defaultFileSystem_never_reassigned:
  "defaultFileSystem (static_initialisation E s)
     = fst (operator_new E sizeof_MicroBitFileSystem (world s))
   \<and> defaultFileSystem (run E ops (static_initialisation E s))
     = defaultFileSystem (static_initialisation E s)"
  by (simp add: run_defaultFileSystem static_initialisation_state)

text \<open>
  Claim C6. Every operation of the facade, the constructor included, leaves the static
  pointer and the contents of every instance as they were; the state afterwards is the
  state before with only the world, changed by the engine calls made and by nothing
  else, and the record of those calls. An instance has no contents that could differ:
  any two values of the type of its data members are equal.
\<close>

theorem facade_frame:
  "defaultFileSystem (snd (perform E x s)) = defaultFileSystem s
   \<and> instances (snd (perform E x s)) = instances s
   \<and> snd (perform E x s) =
       s\<lparr>world := fold (\<lambda>c w. snd (engine E c w)) (new_calls s (snd (perform E x s))) (world s),
         calls := calls s @ new_calls s (snd (perform E x s))\<rparr>
   \<and> (a :: MicroBitFileSystem) = b"
proof -
  obtain c where c: "snd (perform E x s) =
     s\<lparr>world := snd (engine E c (world s)), calls := calls s @ [c]\<rparr>"
    using perform_state by blast
  have "a = b" by (cases a; cases b) simp
  then show ?thesis by (simp add: c new_calls_append)
qed

text \<open>
  Claim C7. The result of a member call, the world it leaves and the engine call it
  makes are the same for any two receivers, any value of the static pointer, any
  contents of the instances and any earlier calls: they depend on the arguments and on
  the world only. The same holds for a construction at any two addresses.
\<close>

theorem receiver_independence:
  "fst (perform E (Member this1 m) (s\<lparr>defaultFileSystem := p, instances := i, calls := cs\<rparr>))
     = fst (perform E (Member this2 m) s)
   \<and> world (snd (perform E (Member this1 m) (s\<lparr>defaultFileSystem := p, instances := i, calls := cs\<rparr>)))
     = world (snd (perform E (Member this2 m) s))
   \<and> new_calls (s\<lparr>defaultFileSystem := p, instances := i, calls := cs\<rparr>)
        (snd (perform E (Member this1 m) (s\<lparr>defaultFileSystem := p, instances := i, calls := cs\<rparr>)))
     = new_calls s (snd (perform E (Member this2 m) s))
   \<and> world (snd (perform E (Construct this1 flashStart flashPages)
                    (s\<lparr>defaultFileSystem := p, instances := i, calls := cs\<rparr>)))
     = world (snd (perform E (Construct this2 flashStart flashPages) s))
   \<and> new_calls (s\<lparr>defaultFileSystem := p, instances := i, calls := cs\<rparr>)
        (snd (perform E (Construct this1 flashStart flashPages)
                (s\<lparr>defaultFileSystem := p, instances := i, calls := cs\<rparr>)))
     = new_calls s (snd (perform E (Construct this2 flashStart flashPages) s))"
  by (cases m)
     (simp_all add: facade_defs CodalFS_defaultFileSystem_def new_calls_def)

subsection \<open>Concrete runs\<close>

text \<open>
  With the stand-in engine: an error code comes back as the engine gave it, for a null
  file name that the facade does not check; and a session of a load-time initialisation,
  a second construction and two member calls makes four engine calls and leaves the
  static pointer at the address allocated at load time.
\<close>

lemma example_error_code_returned:
  "sint (fst (MicroBitFileSystem_open stub 0x20002000 0 3 boot)) = - 1001"
  by (simp add: MicroBitFileSystem_open_def CodalFS_defaultFileSystem_def stub_def boot_def)

lemma example_session:
  "calls (run stub [Construct 4 5 7, Member 4 (Call_open 0x100 3),
                    Member 9 (Call_read 1 0x200 16)] (static_initialisation stub boot))
     = [CodalFS_init, CodalFS_init, CodalFS_open 0x100 3, CodalFS_read 1 0x200 16]
   \<and> defaultFileSystem (run stub [Construct 4 5 7, Member 4 (Call_open 0x100 3),
                    Member 9 (Call_read 1 0x200 16)] (static_initialisation stub boot))
     = 0x20002000"
  by (simp add: facade_defs CodalFS_defaultFileSystem_def static_initialisation_def
        stub_def boot_def)

end
